theory Spec2Isabelle
  imports Complex_Main
begin

section \<open>Errors, time and HTTP results\<close>

text \<open>
  The services return Go \<open>error\<close> values. Three of them are package-level sentinels that
  the handlers compare by identity (\<open>err == services.ErrInvalidToken\<close>); every other
  error (\<open>errors.New\<close>, \<open>fmt.Errorf\<close>, a library or driver error) is carried by its
  message. An error built with \<open>errors.New\<close> is never identical to a sentinel, even with
  the same message.
\<close>

datatype error =
    ErrInvalidCredentials
  | ErrInvalidToken
  | ErrUserNotFound
  | Err string

fun Error_msg :: "error \<Rightarrow> string" where
  "Error_msg ErrInvalidCredentials = ''invalid credentials''"
| "Error_msg ErrInvalidToken = ''invalid or expired token''"
| "Error_msg ErrUserNotFound = ''user not found''"
| "Error_msg (Err m) = m"

text \<open>
  A \<open>time.Time\<close> is an instant, counted in nanoseconds since the Unix epoch; a
  \<open>time.Duration\<close> is a number of nanoseconds.
\<close>

type_synonym Time = int

definition Second :: int where
  "Second = 1000000000"

definition Hour :: int where
  "Hour = 3600 * Second"

text \<open>\<open>net/http\<close> status codes used by the handlers.\<close>

definition StatusOK :: nat where "StatusOK = 200"
definition StatusBadRequest :: nat where "StatusBadRequest = 400"
definition StatusUnauthorized :: nat where "StatusUnauthorized = 401"
definition StatusForbidden :: nat where "StatusForbidden = 403"
definition StatusInternalServerError :: nat where "StatusInternalServerError = 500"

text \<open>
  What a handler writes: \<open>sendError\<close> (or \<open>http.Error\<close>) writes a status and a message,
  \<open>json.NewEncoder(w).Encode(v)\<close> writes a body under the status set before it.
\<close>

datatype 'a response =
    SendError string nat
  | SendJSON nat 'a

text \<open>
  \<open>http.Header\<close> and \<open>url.Values\<close> are both \<open>map[string][]string\<close>; a key that is not
  in the map reads as the empty slice. \<open>Get\<close> returns the first value of the key, or the
  empty string.
\<close>

type_synonym Values = "string \<Rightarrow> string list"

definition Get :: "Values \<Rightarrow> string \<Rightarrow> string" where
  "Get v key = (case v key of [] \<Rightarrow> [] | x # _ \<Rightarrow> x)"

text \<open>
  A request, as far as the handlers read it: its header, the parsed query of its URL, and
  the value its context holds under \<open>userIDKey\<close> (\<open>None\<close> when nothing was attached).
\<close>

record Request =
  Header :: Values
  URLQuery :: Values
  Context :: "int option"

section \<open>The credential store\<close>

text \<open>
  \<open>models.User\<close>, with the columns the authentication code reads or writes (the
  timestamps and the profile relation are read by none of the functions below).
\<close>

record User =
  ID :: int
  Email :: string
  Password :: string
  Name :: string
  IsAdmin :: bool

text \<open>
  The \<open>users\<close> table behind \<open>database.AuthDB\<close>: its rows in insertion order and the
  next value of the \<open>id\<close> sequence. The connection is taken to be healthy, so a lookup
  fails only with \<open>sql.ErrNoRows\<close> and an insert only on a violated constraint.
\<close>

record AuthDB =
  users :: "User list"
  user_seq :: int

definition GetUser :: "AuthDB \<Rightarrow> int \<Rightarrow> error + User" where
  "GetUser d uid =
     (case find (\<lambda>u. ID u = uid) (users d) of
        None \<Rightarrow> Inl (Err ''user not found'')
      | Some u \<Rightarrow> Inr u)"

definition GetUserByEmail :: "AuthDB \<Rightarrow> string \<Rightarrow> error + User" where
  "GetUserByEmail d email =
     (case find (\<lambda>u. Email u = email) (users d) of
        None \<Rightarrow> Inl (Err ''user not found'')
      | Some u \<Rightarrow> Inr u)"

definition UserExists :: "AuthDB \<Rightarrow> string \<Rightarrow> bool" where
  "UserExists d email = list_ex (\<lambda>u. Email u = email) (users d)"

text \<open>
  \<open>CreateUser\<close> inserts the row; a zero \<open>ID\<close> is drawn from the sequence and written
  back into the model (\<open>RETURNING id\<close>). The primary key and the unique \<open>email\<close> column
  reject a duplicate.
\<close>

definition CreateUser :: "AuthDB \<Rightarrow> User \<Rightarrow> error + (User \<times> AuthDB)" where
  "CreateUser d u =
     (let drawn = (ID u = 0);
          u' = (if drawn then u\<lparr>ID := user_seq d\<rparr> else u)
      in if list_ex (\<lambda>r. Email r = Email u' \<or> ID r = ID u') (users d)
         then Inl (Err ''duplicate key value violates unique constraint'')
         else Inr (u', d\<lparr>users := users d @ [u'],
                          user_seq := (if drawn then user_seq d + 1 else user_seq d)\<rparr>))"

section \<open>The token codec\<close>

text \<open>
  \<open>services.Claims\<close>: the three custom claims and, of the embedded
  \<open>jwt.RegisteredClaims\<close>, the three dates. A \<open>*jwt.NumericDate\<close> is an optional instant.
  (Issuer, subject, audience and id are never set here and the default validator does not
  check them.)
\<close>

record Claims =
  UserID :: int
  claims_Email :: string
  claims_IsAdmin :: bool
  ExpiresAt :: "Time option"
  NotBefore :: "Time option"
  IssuedAt :: "Time option"

text \<open>\<open>jwt.NewNumericDate\<close> truncates the instant to \<open>jwt.TimePrecision\<close>, one second.\<close>

definition NewNumericDate :: "Time \<Rightarrow> Time" where
  "NewNumericDate t = t - t mod Second"

text \<open>
  The two libraries the service calls are parameters of the model: bcrypt
  (\<open>GenerateFromPassword\<close>, and \<open>CompareHashAndPassword\<close> read as "returned nil"), and of
  \<open>golang-jwt\<close> the compact serialisation and the MAC. \<open>SignedString alg key c\<close> is the
  token string for claims \<open>c\<close> signed with method \<open>alg\<close>; \<open>decode_token\<close> reads the
  \<open>alg\<close> header and the claims back from a token string (\<open>None\<close>: not three decodable
  segments); \<open>verify_signature alg key tok\<close> is that method's check of the token's
  signature segment. Signing with HS256 and a byte-slice key has no failing path in the
  library.
\<close>

record Lib =
  GenerateFromPassword :: "string \<Rightarrow> error + string"
  CompareHashAndPassword :: "string \<Rightarrow> string \<Rightarrow> bool"
  SignedString :: "string \<Rightarrow> string \<Rightarrow> Claims \<Rightarrow> string"
  decode_token :: "string \<Rightarrow> (string \<times> Claims) option"
  verify_signature :: "string \<Rightarrow> string \<Rightarrow> string \<Rightarrow> bool"

record AuthService =
  db :: AuthDB
  jwtSecret :: string

record AuthResponse =
  Token :: string
  ExpiresIn :: int
  resp_UserID :: int
  resp_Name :: string
  resp_Email :: string
  resp_IsAdmin :: bool

text \<open>
  \<open>generateToken\<close> reads the clock three times: for the expiration time, inside
  \<open>time.Until\<close>, and for the issued-at claim.
\<close>

record Clock =
  now_exp :: Time
  now_until :: Time
  now_iat :: Time

text \<open>\<open>int64(d.Seconds())\<close>: the duration in seconds, truncated toward zero.\<close>

definition seconds_int64 :: "int \<Rightarrow> int" where
  "seconds_int64 d = (if 0 \<le> d then d div Second else - ((- d) div Second))"

definition generateToken :: "Lib \<Rightarrow> AuthService \<Rightarrow> Clock \<Rightarrow> User \<Rightarrow> error + (string \<times> int)" where
  "generateToken L s clk user =
     (let expirationTime = now_exp clk + 24 * Hour;
          expiresIn = seconds_int64 (expirationTime - now_until clk);
          claims = \<lparr>UserID = ID user, claims_Email = Email user, claims_IsAdmin = IsAdmin user,
                    ExpiresAt = Some (NewNumericDate expirationTime),
                    NotBefore = None,
                    IssuedAt = Some (NewNumericDate (now_iat clk))\<rparr>;
          tokenString = SignedString L ''HS256'' (jwtSecret s) claims
      in Inr (tokenString, expiresIn))"

text \<open>
  The key function of \<open>parseToken\<close> accepts the methods of type \<open>*jwt.SigningMethodHMAC\<close>
  only: HS256, HS384 and HS512.
\<close>

definition is_HMAC :: "string \<Rightarrow> bool" where
  "is_HMAC alg = (alg = ''HS256'' \<or> alg = ''HS384'' \<or> alg = ''HS512'')"

text \<open>
  The library's default claims validation at instant \<open>now\<close>: an expiry, when present, must
  lie after \<open>now\<close>; a not-before date, when present, must not lie after \<open>now\<close>. The
  issued-at date is not checked.
\<close>

definition claims_valid :: "Time \<Rightarrow> Claims \<Rightarrow> error option" where
  "claims_valid now c =
     (if (case ExpiresAt c of None \<Rightarrow> False | Some e \<Rightarrow> \<not> now < e)
      then Some (Err ''token has invalid claims: token is expired'')
      else if (case NotBefore c of None \<Rightarrow> False | Some n \<Rightarrow> now < n)
      then Some (Err ''token has invalid claims: token is not valid yet'')
      else None)"

text \<open>
  \<open>parseToken\<close>: \<open>jwt.ParseWithClaims\<close> with the key function above, at the instant
  \<open>now\<close> the library reads from the clock. After a nil error the token is valid and its
  claims have the type asked for, so the closing \<open>return nil, ErrInvalidToken\<close> of the
  source is not reached.
\<close>

definition parseToken :: "Lib \<Rightarrow> AuthService \<Rightarrow> Time \<Rightarrow> string \<Rightarrow> error + Claims" where
  "parseToken L s now tokenString =
     (case decode_token L tokenString of
        None \<Rightarrow> Inl (Err ''token is malformed'')
      | Some (alg, claims) \<Rightarrow>
          if \<not> is_HMAC alg then Inl (Err ''token is unverifiable: unexpected signing method'')
          else if \<not> verify_signature L alg (jwtSecret s) tokenString
          then Inl (Err ''token signature is invalid'')
          else (case claims_valid now claims of
                  Some e \<Rightarrow> Inl e
                | None \<Rightarrow> Inr claims))"

text \<open>
  The claims \<open>generateToken\<close> signs for a user, the expiry a token string carries, and what
  is expected of the library on one set of claims: the token string signed for them under
  HS256 decodes to them, and its signature verifies under the signing key.
\<close>

definition issued_claims :: "Clock \<Rightarrow> User \<Rightarrow> Claims" where
  "issued_claims clk user =
     \<lparr>UserID = ID user, claims_Email = Email user, claims_IsAdmin = IsAdmin user,
      ExpiresAt = Some (NewNumericDate (now_exp clk + 24 * Hour)),
      NotBefore = None,
      IssuedAt = Some (NewNumericDate (now_iat clk))\<rparr>"

definition token_expiry :: "Lib \<Rightarrow> string \<Rightarrow> Time option" where
  "token_expiry L tok =
     (case decode_token L tok of None \<Rightarrow> None | Some (alg, c) \<Rightarrow> ExpiresAt c)"

definition reads_back :: "Lib \<Rightarrow> string \<Rightarrow> Claims \<Rightarrow> bool" where
  "reads_back L key c =
     (let tok = SignedString L ''HS256'' key c
      in decode_token L tok = Some (''HS256'', c) \<and> verify_signature L ''HS256'' key tok)"

section \<open>The authentication service\<close>

definition mkAuthResponse :: "string \<Rightarrow> int \<Rightarrow> User \<Rightarrow> AuthResponse" where
  "mkAuthResponse token expiresIn user =
     \<lparr>Token = token, ExpiresIn = expiresIn, resp_UserID = ID user, resp_Name = Name user,
      resp_Email = Email user, resp_IsAdmin = IsAdmin user\<rparr>"

definition Register ::
  "Lib \<Rightarrow> AuthService \<Rightarrow> Clock \<Rightarrow> string \<Rightarrow> string \<Rightarrow> string \<Rightarrow> error + (AuthResponse \<times> AuthService)" where
  "Register L s clk email password name =
     (case GenerateFromPassword L password of
        Inl e \<Rightarrow> Inl (Err (''failed to hash password: '' @ Error_msg e))
      | Inr hashedPassword \<Rightarrow>
          (case CreateUser (db s) \<lparr>ID = 0, Email = email, Password = hashedPassword,
                                   Name = name, IsAdmin = False\<rparr> of
             Inl e \<Rightarrow> Inl (Err (''failed to create user: '' @ Error_msg e))
           | Inr (user, d') \<Rightarrow>
               (case generateToken L s clk user of
                  Inl e \<Rightarrow> Inl (Err (''failed to generate token: '' @ Error_msg e))
                | Inr (token, expiresIn) \<Rightarrow>
                    Inr (mkAuthResponse token expiresIn user, s\<lparr>db := d'\<rparr>))))"

definition Login :: "Lib \<Rightarrow> AuthService \<Rightarrow> Clock \<Rightarrow> string \<Rightarrow> string \<Rightarrow> error + AuthResponse" where
  "Login L s clk email password =
     (case GetUserByEmail (db s) email of
        Inl e \<Rightarrow> Inl ErrInvalidCredentials
      | Inr user \<Rightarrow>
          if \<not> CompareHashAndPassword L (Password user) password
          then Inl ErrInvalidCredentials
          else (case generateToken L s clk user of
                  Inl e \<Rightarrow> Inl (Err (''failed to generate token: '' @ Error_msg e))
                | Inr (token, expiresIn) \<Rightarrow> Inr (mkAuthResponse token expiresIn user)))"

definition RefreshToken :: "Lib \<Rightarrow> AuthService \<Rightarrow> Time \<Rightarrow> Clock \<Rightarrow> string \<Rightarrow> error + AuthResponse" where
  "RefreshToken L s now clk token =
     (case parseToken L s now token of
        Inl e \<Rightarrow> Inl ErrInvalidToken
      | Inr claims \<Rightarrow>
          (case GetUser (db s) (UserID claims) of
             Inl e \<Rightarrow> Inl ErrUserNotFound
           | Inr user \<Rightarrow>
               (case generateToken L s clk user of
                  Inl e \<Rightarrow> Inl (Err (''failed to generate token: '' @ Error_msg e))
                | Inr (newToken, expiresIn) \<Rightarrow> Inr (mkAuthResponse newToken expiresIn user))))"

definition ValidateToken :: "Lib \<Rightarrow> AuthService \<Rightarrow> Time \<Rightarrow> string \<Rightarrow> error + int" where
  "ValidateToken L s now token =
     (case parseToken L s now token of
        Inl e \<Rightarrow> Inl ErrInvalidToken
      | Inr claims \<Rightarrow> Inr (UserID claims))"

definition IsAdmin_svc :: "AuthService \<Rightarrow> int \<Rightarrow> error + bool" where
  "IsAdmin_svc s userID =
     (case GetUser (db s) userID of
        Inl e \<Rightarrow> Inl e
      | Inr user \<Rightarrow> Inr (IsAdmin user))"

definition ContextWithUserID :: "Request \<Rightarrow> int \<Rightarrow> Request" where
  "ContextWithUserID r userID = r\<lparr>Context := Some userID\<rparr>"

text \<open>
  \<open>UserIDFromContext\<close>: the type assertion yields the zero value when the context holds
  nothing under the key.
\<close>

definition UserIDFromContext :: "Request \<Rightarrow> int" where
  "UserIDFromContext r = (case Context r of None \<Rightarrow> 0 | Some userID \<Rightarrow> userID)"

section \<open>The authentication handlers and the access-control middleware\<close>

text \<open>The body of a login request after \<open>json.Decode\<close>.\<close>

record LoginRequest =
  req_Email :: string
  req_Password :: string

text \<open>
  \<open>AuthHandler.Login\<close>; \<open>body\<close> is \<open>None\<close> when the request body does not decode.
\<close>

definition LoginHandler ::
  "Lib \<Rightarrow> AuthService \<Rightarrow> Clock \<Rightarrow> LoginRequest option \<Rightarrow> AuthResponse response" where
  "LoginHandler L s clk body =
     (case body of
        None \<Rightarrow> SendError ''Invalid request body'' StatusBadRequest
      | Some req \<Rightarrow>
          if req_Email req = [] \<or> req_Password req = []
          then SendError ''Email and password are required'' StatusBadRequest
          else (case Login L s clk (req_Email req) (req_Password req) of
                  Inl err \<Rightarrow>
                    if err = ErrInvalidCredentials
                    then SendError ''Invalid email or password'' StatusUnauthorized
                    else SendError ''Internal server error'' StatusInternalServerError
                | Inr authResp \<Rightarrow> SendJSON StatusOK authResp))"

text \<open>\<open>strings.Split(s, sep)\<close> for a one-character separator.\<close>

fun Split :: "string \<Rightarrow> char \<Rightarrow> string list" where
  "Split [] sep = [[]]"
| "Split (c # cs) sep =
     (if c = sep then [] # Split cs sep
      else (case Split cs sep of [] \<Rightarrow> [[c]] | p # ps \<Rightarrow> (c # p) # ps))"

definition extractToken :: "Request \<Rightarrow> string" where
  "extractToken r =
     (let bearerToken = Get (Header r) ''Authorization''
      in if bearerToken = [] then []
         else (let parts = Split bearerToken CHR '' ''
               in if length parts \<noteq> 2 \<or> parts ! 0 \<noteq> ''Bearer'' then []
                  else parts ! 1))"

text \<open>
  A middleware stage either answers the request itself (\<open>sendError\<close>) or calls
  \<open>next.ServeHTTP\<close> with the request it passes on.
\<close>

datatype stage =
    Rejected string nat
  | Next Request

definition AuthMiddleware :: "Lib \<Rightarrow> AuthService \<Rightarrow> Time \<Rightarrow> Request \<Rightarrow> stage" where
  "AuthMiddleware L s now r =
     (let token = extractToken r
      in if token = [] then Rejected ''Missing authorization header'' StatusUnauthorized
         else (case ValidateToken L s now token of
                 Inl err \<Rightarrow>
                   if err = ErrInvalidToken
                   then Rejected ''Invalid or expired token'' StatusUnauthorized
                   else Rejected ''Internal server error'' StatusInternalServerError
               | Inr userID \<Rightarrow> Next (ContextWithUserID r userID)))"

definition AdminMiddleware :: "AuthService \<Rightarrow> Request \<Rightarrow> stage" where
  "AdminMiddleware s r =
     (let userID = UserIDFromContext r
      in if userID = 0 then Rejected ''Unauthorized'' StatusUnauthorized
         else (case IsAdmin_svc s userID of
                 Inl err \<Rightarrow> Rejected ''Internal server error'' StatusInternalServerError
               | Inr isAdmin \<Rightarrow>
                   if \<not> isAdmin then Rejected ''Admin access required'' StatusForbidden
                   else Next r))"

section \<open>The movie catalog\<close>

text \<open>
  \<open>models.Movie\<close>. A Go slice is \<open>nil\<close> or holds a list of elements, so \<open>Categories\<close> is
  optional. The zero \<open>time.Time\<close> is the first instant of year 1, UTC.
\<close>

definition zeroTime :: Time where
  "zeroTime = - 62135596800 * Second"

record Movie =
  movie_ID :: int
  Title :: string
  Description :: string
  ReleaseYear :: int
  Duration :: int
  PosterURL :: string
  VideoURL :: string
  Categories :: "string list option"
  Rating :: real
  CreatedAt :: Time
  UpdatedAt :: Time

text \<open>The \<open>movies\<close> table: its rows and the next value of the \<open>id\<close> sequence.\<close>

record MovieDB =
  movies :: "Movie list"
  movie_seq :: int

record MovieFilter =
  CategoryID :: "int option"
  Search :: string
  SortBy :: string
  filter_Categories :: "string list"
  Year :: "int option"
  Page :: int
  PageSize :: int

text \<open>
  The conditions \<open>GetMovies\<close> adds to its query, in the order of its four \<open>if\<close>
  statements.
\<close>

datatype clause =
    Where_ILIKE string
  | Join_category int
  | Where_overlap "string list"
  | Where_year int

definition where_clauses :: "MovieFilter \<Rightarrow> clause list" where
  "where_clauses f =
     (if Search f \<noteq> [] then [Where_ILIKE (''%'' @ Search f @ ''%'')] else [])
     @ (case CategoryID f of None \<Rightarrow> [] | Some c \<Rightarrow> [Join_category c])
     @ (if length (filter_Categories f) > 0 then [Where_overlap (filter_Categories f)] else [])
     @ (case Year f of None \<Rightarrow> [] | Some y \<Rightarrow> [Where_year y])"

text \<open>
  What PostgreSQL does with the text of a query is a parameter of the model: the truth of
  \<open>value ILIKE pattern\<close>, the order in which an \<open>ORDER BY\<close> clause returns a set of rows
  (collation and the order of ties are the store's), and the text of the error it raises
  on a query it rejects.
\<close>

record Store =
  ilike :: "string \<Rightarrow> string \<Rightarrow> bool"
  order_by :: "string \<Rightarrow> Movie list \<Rightarrow> Movie list"
  sql_error :: "clause list \<Rightarrow> string"

text \<open>
  The rows the conditions select, or \<open>None\<close> when the store rejects the query. The search
  condition keeps the rows whose title or description matches the pattern, the year
  condition those of the given release year. The other two never select anything: the
  join condition is written \<open>mc.movie_id = movie.id\<close> while the query names its table \<open>m\<close>
  (the alias of the model), and \<open>categories && ?\<close> receives the categories through
  \<open>bun.In\<close>, as a list of values and not as an array; the store rejects both.
\<close>

fun run_where :: "Store \<Rightarrow> clause list \<Rightarrow> Movie list \<Rightarrow> Movie list option" where
  "run_where st [] rows = Some rows"
| "run_where st (Where_ILIKE p # cs) rows =
     run_where st cs (filter (\<lambda>m. ilike st (Title m) p \<or> ilike st (Description m) p) rows)"
| "run_where st (Where_year y # cs) rows =
     run_where st cs (filter (\<lambda>m. ReleaseYear m = y) rows)"
| "run_where st (Join_category c # cs) rows = None"
| "run_where st (Where_overlap xs # cs) rows = None"

definition selected :: "Store \<Rightarrow> MovieDB \<Rightarrow> MovieFilter \<Rightarrow> error + Movie list" where
  "selected st d f =
     (case run_where st (where_clauses f) (movies d) of
        None \<Rightarrow> Inl (Err (sql_error st (where_clauses f)))
      | Some rows \<Rightarrow> Inr rows)"

text \<open>The \<open>switch\<close> on \<open>filter.SortBy\<close>.\<close>

definition order_clause :: "string \<Rightarrow> string" where
  "order_clause sortBy =
     (if sortBy = ''title_asc'' then ''title ASC''
      else if sortBy = ''title_desc'' then ''title DESC''
      else if sortBy = ''year_asc'' then ''release_year ASC''
      else if sortBy = ''year_desc'' then ''release_year DESC''
      else if sortBy = ''rating_desc'' then ''rating DESC''
      else ''created_at DESC'')"

text \<open>
  Go's \<open>int\<close> is 64 bits wide here; arithmetic wraps around in two's complement. The
  conversion \<open>int32(n)\<close> keeps the low 32 bits.
\<close>

definition wrap64 :: "int \<Rightarrow> int" where
  "wrap64 x = (x + 2 ^ 63) mod 2 ^ 64 - 2 ^ 63"

definition int32 :: "int \<Rightarrow> int" where
  "int32 x = (x + 2 ^ 31) mod 2 ^ 32 - 2 ^ 31"

text \<open>
  \<open>query.Limit(n).Offset(k)\<close>: bun keeps both numbers as \<open>int32\<close> and writes \<open>LIMIT\<close> and
  \<open>OFFSET\<close> into the query only when the number it kept is positive.
\<close>

definition limit_offset :: "int \<Rightarrow> int \<Rightarrow> Movie list \<Rightarrow> Movie list" where
  "limit_offset n k rows =
     (let skipped = (if 0 < int32 k then drop (nat (int32 k)) rows else rows)
      in if 0 < int32 n then take (nat (int32 n)) skipped else skipped)"

text \<open>
  The page and page size \<open>MovieService.GetMovies\<close> works with, after its two defaults.
\<close>

definition effective_page :: "MovieFilter \<Rightarrow> int" where
  "effective_page f = (if Page f \<le> 0 then 1 else Page f)"

definition effective_page_size :: "MovieFilter \<Rightarrow> int" where
  "effective_page_size f = (if PageSize f \<le> 0 then 20 else PageSize f)"

text \<open>
  \<open>MovieService.GetMovies\<close> returns the triple \<open>(movies, total, err)\<close>. The count runs
  first and is where a rejected query fails (\<open>return nil, 0, err\<close>); then the order, the
  limit and the offset are added to the same query, which the store accepts if it
  accepted the count.
\<close>

definition GetMovies :: "Store \<Rightarrow> MovieDB \<Rightarrow> MovieFilter \<Rightarrow> Movie list \<times> int \<times> error option" where
  "GetMovies st d f =
     (case selected st d f of
        Inl err \<Rightarrow> ([], 0, Some err)
      | Inr rows \<Rightarrow>
          (let tot = int (length rows);
               page = effective_page f;
               pageSize = effective_page_size f;
               offset = wrap64 ((page - 1) * pageSize);
               ordered = order_by st (order_clause (SortBy f)) rows
           in (limit_offset pageSize offset ordered, tot, None)))"









text \<open>
  \<open>CreateMovie\<close> and \<open>UpdateMovie\<close> return their error and leave the store as the
  statements they ran made it. An insert draws a zero id from the sequence and gives a
  zero timestamp the default of its column, the store's \<open>current_timestamp\<close> (\<open>now\<close>);
  the primary key rejects a duplicate id. The method \<open>BeforeAppend\<close> of the model is not
  one of the hooks bun calls (its hook is \<open>BeforeAppendModel\<close>, with another signature), so
  no statement runs it and the timestamps of the value reach the statement as they are.
\<close>

definition CreateMovie :: "MovieDB \<Rightarrow> Time \<Rightarrow> Movie \<Rightarrow> error option \<times> MovieDB" where
  "CreateMovie d now movie =
     (if list_ex (\<lambda>r. Title r = Title movie) (movies d)
      then (Some (Err ''movie already exists''), d)
      else (let drawn = (movie_ID movie = 0);
                m' = movie\<lparr>movie_ID := (if drawn then movie_seq d else movie_ID movie),
                           CreatedAt := (if CreatedAt movie = zeroTime then now
                                         else CreatedAt movie),
                           UpdatedAt := (if UpdatedAt movie = zeroTime then now
                                         else UpdatedAt movie)\<rparr>
            in if list_ex (\<lambda>r. movie_ID r = movie_ID m') (movies d)
               then (Some (Err ''duplicate key value violates unique constraint''), d)
               else (None, d\<lparr>movies := movies d @ [m'],
                              movie_seq := (if drawn then movie_seq d + 1 else movie_seq d)\<rparr>)))"

text \<open>
  \<open>OmitZero\<close>: the update sets the columns, other than the key, whose field is not the
  zero value of its type (for a slice: not \<open>nil\<close>) and leaves the others as stored. When
  every field is zero there is nothing to set, and bun refuses to build the statement.
\<close>

definition nothing_to_set :: "Movie \<Rightarrow> bool" where
  "nothing_to_set movie =
     (Title movie = [] \<and> Description movie = [] \<and> ReleaseYear movie = 0 \<and> Duration movie = 0
      \<and> PosterURL movie = [] \<and> VideoURL movie = [] \<and> Categories movie = None
      \<and> Rating movie = 0 \<and> CreatedAt movie = zeroTime \<and> UpdatedAt movie = zeroTime)"

definition omit_zero :: "Movie \<Rightarrow> Movie \<Rightarrow> Movie" where
  "omit_zero movie stored =
     \<lparr>movie_ID = movie_ID stored,
      Title = (if Title movie = [] then Title stored else Title movie),
      Description = (if Description movie = [] then Description stored else Description movie),
      ReleaseYear = (if ReleaseYear movie = 0 then ReleaseYear stored else ReleaseYear movie),
      Duration = (if Duration movie = 0 then Duration stored else Duration movie),
      PosterURL = (if PosterURL movie = [] then PosterURL stored else PosterURL movie),
      VideoURL = (if VideoURL movie = [] then VideoURL stored else VideoURL movie),
      Categories = (if Categories movie = None then Categories stored else Categories movie),
      Rating = (if Rating movie = 0 then Rating stored else Rating movie),
      CreatedAt = (if CreatedAt movie = zeroTime then CreatedAt stored else CreatedAt movie),
      UpdatedAt = (if UpdatedAt movie = zeroTime then UpdatedAt stored else UpdatedAt movie)\<rparr>"

definition UpdateMovie :: "MovieDB \<Rightarrow> Movie \<Rightarrow> error option \<times> MovieDB" where
  "UpdateMovie d movie =
     (if list_ex (\<lambda>r. Title r = Title movie \<and> movie_ID r \<noteq> movie_ID movie) (movies d)
      then (Some (Err ''movie title already taken''), d)
      else if nothing_to_set movie
      then (Some (Err ''bun: empty SET clause is not allowed in the UPDATE query''), d)
      else (None, d\<lparr>movies := map (\<lambda>r. if movie_ID r = movie_ID movie
                                          then omit_zero movie r else r) (movies d)\<rparr>))"

text \<open>
  The invariants of the data model: no two movies of the catalog share a title, and none
  share an id.
\<close>

definition catalog_ok :: "MovieDB \<Rightarrow> bool" where
  "catalog_ok d = (distinct (map Title (movies d)) \<and> distinct (map movie_ID (movies d)))"

section \<open>Example data\<close>

text \<open>
  A small instance of the two libraries, for evaluating the model on concrete inputs: the
  "hash" of a password is the password behind a mark, a token string is its key behind a
  mark that shows the admin claim, and every token string decodes to the claims \<open>c\<close> under
  HS256.
\<close>

definition table_Lib :: "Claims \<Rightarrow> Lib" where
  "table_Lib c =
     \<lparr>GenerateFromPassword = (\<lambda>p. Inr (''#'' @ p)),
      CompareHashAndPassword = (\<lambda>h p. h = ''#'' @ p),
      SignedString = (\<lambda>alg key c'. (if claims_IsAdmin c' then ''adm:'' else ''tok:'') @ key),
      decode_token = (\<lambda>t. if take 4 t = ''tok:'' \<or> take 4 t = ''adm:''
                          then Some (''HS256'', c) else None),
      verify_signature = (\<lambda>alg key t. t = ''tok:'' @ key \<or> t = ''adm:'' @ key)\<rparr>"

text \<open>
  A store with one user, a service over it, and the three clock readings of one call of
  \<open>generateToken\<close>, a few nanoseconds apart.
\<close>

definition alice :: User where
  "alice = \<lparr>ID = 1, Email = ''alice@example.com'', Password = ''#wonderland'',
             Name = ''Alice'', IsAdmin = False\<rparr>"

definition svc0 :: AuthService where
  "svc0 = \<lparr>db = \<lparr>users = [alice], user_seq = 2\<rparr>, jwtSecret = ''k''\<rparr>"

definition clk0 :: Clock where
  "clk0 = \<lparr>now_exp = 1700000000 * Second + 5,
            now_until = 1700000000 * Second + 7,
            now_iat = 1700000000 * Second + 9\<rparr>"

definition claims0 :: Claims where
  "claims0 = \<lparr>UserID = 1, claims_Email = ''alice@example.com'', claims_IsAdmin = False,
               ExpiresAt = Some (1700086400 * Second), NotBefore = None,
               IssuedAt = Some (1700000000 * Second)\<rparr>"

definition bob :: User where
  "bob = \<lparr>ID = 2, Email = ''bob@example.com'', Password = ''#builder'', Name = ''Bob'',
           IsAdmin = False\<rparr>"

definition svc1 :: AuthService where
  "svc1 = \<lparr>db = \<lparr>users = [alice, bob], user_seq = 3\<rparr>, jwtSecret = ''k''\<rparr>"

definition respA :: AuthResponse where
  "respA = \<lparr>Token = ''tok:k'', ExpiresIn = 86399, resp_UserID = 1, resp_Name = ''Alice'',
             resp_Email = ''alice@example.com'', resp_IsAdmin = False\<rparr>"

definition respB :: AuthResponse where
  "respB = \<lparr>Token = ''tok:k'', ExpiresIn = 86399, resp_UserID = 2, resp_Name = ''Bob'',
             resp_Email = ''bob@example.com'', resp_IsAdmin = False\<rparr>"

text \<open>The same store after Alice was made an administrator, and an empty store.\<close>

definition svc_promoted :: AuthService where
  "svc_promoted = \<lparr>db = \<lparr>users = [alice\<lparr>IsAdmin := True\<rparr>], user_seq = 2\<rparr>, jwtSecret = ''k''\<rparr>"

definition svc_empty :: AuthService where
  "svc_empty = \<lparr>db = \<lparr>users = [], user_seq = 1\<rparr>, jwtSecret = ''k''\<rparr>"

text \<open>Requests: one with a bearer token, one with nothing set.\<close>

definition req_bearer :: Request where
  "req_bearer = \<lparr>Header = (\<lambda>k. if k = ''Authorization'' then [''Bearer tok:k''] else []),
                  URLQuery = (\<lambda>k. []), Context = None\<rparr>"

definition req_plain :: Request where
  "req_plain = \<lparr>Header = (\<lambda>k. []), URLQuery = (\<lambda>k. []), Context = None\<rparr>"

definition req_basic :: Request where
  "req_basic = \<lparr>Header = (\<lambda>k. if k = ''Authorization'' then [''Basic dXNlcjpwdw==''] else []),
                 URLQuery = (\<lambda>k. []), Context = None\<rparr>"

definition req_stale :: Request where
  "req_stale = \<lparr>Header = (\<lambda>k. if k = ''Authorization'' then [''Bearer tok:old''] else []),
                 URLQuery = (\<lambda>k. []), Context = None\<rparr>"

text \<open>A request whose context carries the user id 0.\<close>

definition req_zero :: Request where
  "req_zero = \<lparr>Header = (\<lambda>k. []), URLQuery = (\<lambda>k. []), Context = Some 0\<rparr>"


















section \<open>Login\<close>

lemma GetUserByEmail_unknown:
  "\<not> UserExists d email \<Longrightarrow> GetUserByEmail d email = Inl (Err ''user not found'')"
  by (auto simp: UserExists_def GetUserByEmail_def list_ex_iff find_None_iff
      split: option.splits)

text \<open>
  C1. A login that does not authenticate fails with \<open>ErrInvalidCredentials\<close> and nothing
  else, whether the email is not registered (first store, first pair) or the email is
  registered and the password does not match the stored hash (second store, second pair):
  the two calls return the same value.
\<close>

theorem Login_failures_indistinguishable:
  assumes unknown: "\<not> UserExists (db s) email"
    and known: "GetUserByEmail (db s') email' = Inr u"
    and wrong: "\<not> CompareHashAndPassword L (Password u) password'"
  shows "Login L s clk email password = Inl ErrInvalidCredentials
       \<and> Login L s' clk' email' password' = Inl ErrInvalidCredentials
       \<and> Login L s clk email password = Login L s' clk' email' password'"
proof -
  have a: "Login L s clk email password = Inl ErrInvalidCredentials"
    using unknown by (simp add: Login_def GetUserByEmail_unknown)
  have b: "Login L s' clk' email' password' = Inl ErrInvalidCredentials"
    using known wrong by (simp add: Login_def)
  from a b show ?thesis by simp
qed

theorem Login_failures_indistinguishable_witness:
  "Login (table_Lib claims0) svc0 clk0 ''bob@example.com'' ''wonderland''
     = Inl ErrInvalidCredentials
   \<and> Login (table_Lib claims0) svc0 clk0 ''alice@example.com'' ''looking-glass''
     = Inl ErrInvalidCredentials
   \<and> Login (table_Lib claims0) svc0 clk0 ''bob@example.com'' ''wonderland''
     = Login (table_Lib claims0) svc0 clk0 ''alice@example.com'' ''looking-glass''"
proof -
  have unknown: "\<not> UserExists (db svc0) ''bob@example.com''"
    by (simp add: UserExists_def svc0_def alice_def)
  have known: "GetUserByEmail (db svc0) ''alice@example.com'' = Inr alice"
    by (simp add: GetUserByEmail_def svc0_def alice_def)
  have wrong: "\<not> CompareHashAndPassword (table_Lib claims0) (Password alice) ''looking-glass''"
    by (simp add: table_Lib_def alice_def)
  show ?thesis
    by (rule Login_failures_indistinguishable [OF unknown known wrong])
qed

text \<open>
  The HTTP layer keeps the two causes apart no better: both requests are answered with
  status 401 and the same message.
\<close>

lemma LoginHandler_failures_indistinguishable:
  assumes "Login L s clk email password = Inl ErrInvalidCredentials"
    and "email \<noteq> []" and "password \<noteq> []"
  shows "LoginHandler L s clk (Some \<lparr>req_Email = email, req_Password = password\<rparr>)
           = SendError ''Invalid email or password'' StatusUnauthorized"
  using assms by (simp add: LoginHandler_def)

section \<open>Issued tokens\<close>

lemma generateToken_eq:
  "generateToken L s clk u =
     Inr (SignedString L ''HS256'' (jwtSecret s) (issued_claims clk u),
          seconds_int64 (now_exp clk + 24 * Hour - now_until clk))"
  by (simp add: generateToken_def issued_claims_def Let_def)

lemma GetUserByEmail_Inr:
  "GetUserByEmail d email = Inr u \<Longrightarrow> find (\<lambda>r. Email r = email) (users d) = Some u"
  by (simp add: GetUserByEmail_def split: option.splits)

lemma Login_Inr:
  assumes "Login L s clk email password = Inr resp" and "GetUserByEmail (db s) email = Inr u"
  shows "resp = mkAuthResponse (SignedString L ''HS256'' (jwtSecret s) (issued_claims clk u))
                  (seconds_int64 (now_exp clk + 24 * Hour - now_until clk)) u"
  using assms by (simp add: Login_def generateToken_eq split: if_splits)

lemma find_append_new:
  "\<not> list_ex P xs \<Longrightarrow> P x \<Longrightarrow> find P (xs @ [x]) = Some x"
  by (induction xs) auto

lemma CreateUser_lookup:
  assumes "CreateUser d u0 = Inr (u', d')"
  shows "GetUserByEmail d' (Email u0) = Inr u'"
proof -
  let ?u = "if ID u0 = 0 then u0\<lparr>ID := user_seq d\<rparr> else u0"
  from assms have no: "\<not> list_ex (\<lambda>r. Email r = Email ?u \<or> ID r = ID ?u) (users d)"
    and u': "u' = ?u" and d': "users d' = users d @ [?u]"
    by (auto simp: CreateUser_def Let_def split: if_splits)
  have em: "Email ?u = Email u0" by simp
  from no have "\<not> list_ex (\<lambda>r. Email r = Email u0) (users d)"
    unfolding list_ex_iff using em by (cases "ID u0 = 0") auto
  then have "find (\<lambda>r. Email r = Email u0) (users d @ [?u]) = Some ?u"
    using em by (intro find_append_new) auto
  then show ?thesis
    by (simp add: GetUserByEmail_def d' u')
qed

lemma Register_Inr:
  assumes "Register L s0 clk email password name = Inr (resp, s)"
    and "GetUserByEmail (db s) email = Inr u"
  shows "resp = mkAuthResponse (SignedString L ''HS256'' (jwtSecret s) (issued_claims clk u))
                  (seconds_int64 (now_exp clk + 24 * Hour - now_until clk)) u"
proof -
  from assms(1) obtain h u' d' where
    cu: "CreateUser (db s0) \<lparr>ID = 0, Email = email, Password = h, Name = name, IsAdmin = False\<rparr> = Inr (u', d')"
    and resp: "resp = mkAuthResponse (SignedString L ''HS256'' (jwtSecret s0) (issued_claims clk u'))
                  (seconds_int64 (now_exp clk + 24 * Hour - now_until clk)) u'"
    and s: "s = s0\<lparr>db := d'\<rparr>"
    by (auto simp: Register_def generateToken_eq split: sum.splits)
  from CreateUser_lookup [OF cu] have "GetUserByEmail d' email = Inr u'" by simp
  with assms(2) s have "u = u'" by simp
  with resp s show ?thesis by simp
qed

lemma parseToken_issued:
  assumes "reads_back L key (issued_claims clk u)" and "jwtSecret s' = key"
  shows "parseToken L s' now (SignedString L ''HS256'' key (issued_claims clk u)) =
          (if now < NewNumericDate (now_exp clk + 24 * Hour) then Inr (issued_claims clk u)
           else Inl (Err ''token has invalid claims: token is expired''))"
  using assms
  by (simp add: reads_back_def Let_def parseToken_def is_HMAC_def claims_valid_def issued_claims_def)

lemma expired_token_rejected:
  assumes "token_expiry L tok = Some e" and "e \<le> now"
  shows "ValidateToken L s now tok = Inl ErrInvalidToken"
  using assms
  by (auto simp: token_expiry_def ValidateToken_def parseToken_def claims_valid_def
      split: option.splits sum.splits)

text \<open>
  C3. Take a token issued by \<open>Login\<close> or \<open>Register\<close> for the user record \<open>u\<close> the store
  holds under the email, a library that reads back what it signed for \<open>u\<close>, and any
  service \<open>s'\<close> with the same signing secret. The token carries the expiry
  \<open>NewNumericDate (now_exp clk + 24 * Hour)\<close>; at every instant before it
  \<open>ValidateToken\<close> succeeds with the id of \<open>u\<close>, and at every instant from it on
  \<open>ValidateToken\<close> fails with \<open>ErrInvalidToken\<close>. So does it on any token string \<open>tok\<close>
  that carries an expiry \<open>e\<close> in the past, whoever made it.
\<close>

theorem issued_token_validates:
  assumes issued: "Login L s clk email password = Inr resp
                   \<or> Register L s0 clk email password name = Inr (resp, s)"
    and user: "GetUserByEmail (db s) email = Inr u"
    and lib: "reads_back L (jwtSecret s) (issued_claims clk u)"
    and secret: "jwtSecret s' = jwtSecret s"
  shows "token_expiry L (Token resp) = Some (NewNumericDate (now_exp clk + 24 * Hour))
       \<and> (now < NewNumericDate (now_exp clk + 24 * Hour)
            \<longrightarrow> ValidateToken L s' now (Token resp) = Inr (ID u))
       \<and> (NewNumericDate (now_exp clk + 24 * Hour) \<le> now
            \<longrightarrow> ValidateToken L s' now (Token resp) = Inl ErrInvalidToken)
       \<and> (token_expiry L tok = Some e \<and> e \<le> now
            \<longrightarrow> ValidateToken L s' now tok = Inl ErrInvalidToken)"
proof -
  let ?tok = "SignedString L ''HS256'' (jwtSecret s) (issued_claims clk u)"
  from issued user have tok: "Token resp = ?tok"
    by (auto dest: Login_Inr Register_Inr simp: mkAuthResponse_def)
  have exp: "token_expiry L ?tok = Some (NewNumericDate (now_exp clk + 24 * Hour))"
    using lib by (simp add: token_expiry_def reads_back_def Let_def issued_claims_def)
  have p: "parseToken L s' now ?tok =
          (if now < NewNumericDate (now_exp clk + 24 * Hour) then Inr (issued_claims clk u)
           else Inl (Err ''token has invalid claims: token is expired''))"
    by (rule parseToken_issued [OF lib secret])
  have any: "ValidateToken L s' now tok = Inl ErrInvalidToken"
    if "token_expiry L tok = Some e" "e \<le> now"
    using that by (rule expired_token_rejected)
  show ?thesis
    unfolding tok using exp p any by (simp add: ValidateToken_def issued_claims_def)
qed


theorem issued_token_validates_witness:
  "ValidateToken (table_Lib (issued_claims clk0 alice)) svc0 (1700086399 * Second) (Token respA) = Inr 1
 \<and> ValidateToken (table_Lib (issued_claims clk0 alice)) svc0 (1700086400 * Second) (Token respA)
      = Inl ErrInvalidToken
 \<and> ValidateToken (table_Lib (issued_claims clk0 bob)) svc1 (1700086399 * Second) (Token respB) = Inr 2
 \<and> ValidateToken (table_Lib (issued_claims clk0 bob)) svc1 (1700086400 * Second) (Token respB)
      = Inl ErrInvalidToken
 \<and> ValidateToken (table_Lib (issued_claims clk0 bob)) svc1 (1800000000 * Second) ''adm:forged''
      = Inl ErrInvalidToken"
proof -
  let ?LA = "table_Lib (issued_claims clk0 alice)"
  let ?LB = "table_Lib (issued_claims clk0 bob)"
  have exp: "NewNumericDate (now_exp clk0 + 24 * Hour) = 1700086400 * Second"
    by (simp add: NewNumericDate_def clk0_def Hour_def Second_def)
  have loginA: "Login ?LA svc0 clk0 ''alice@example.com'' ''wonderland'' = Inr respA"
    by (simp add: Login_def GetUserByEmail_def svc0_def alice_def table_Lib_def generateToken_def
        mkAuthResponse_def respA_def clk0_def seconds_int64_def Hour_def Second_def)
  have userA: "GetUserByEmail (db svc0) ''alice@example.com'' = Inr alice"
    by (simp add: GetUserByEmail_def svc0_def alice_def)
  have libA: "reads_back ?LA (jwtSecret svc0) (issued_claims clk0 alice)"
    by (simp add: reads_back_def table_Lib_def svc0_def)
  have regB: "Register ?LB svc0 clk0 ''bob@example.com'' ''builder'' ''Bob'' = Inr (respB, svc1)"
    by (simp add: Register_def CreateUser_def Let_def svc0_def svc1_def alice_def bob_def
        table_Lib_def generateToken_def mkAuthResponse_def respB_def clk0_def seconds_int64_def
        Hour_def Second_def)
  have userB: "GetUserByEmail (db svc1) ''bob@example.com'' = Inr bob"
    by (simp add: GetUserByEmail_def svc1_def alice_def bob_def)
  have libB: "reads_back ?LB (jwtSecret svc1) (issued_claims clk0 bob)"
    by (simp add: reads_back_def table_Lib_def svc1_def)
  have early: "1700086399 * Second < NewNumericDate (now_exp clk0 + 24 * Hour)"
    and late: "NewNumericDate (now_exp clk0 + 24 * Hour) \<le> 1700086400 * Second"
    by (simp_all add: exp Second_def)
  note A = issued_token_validates [where s' = svc0 and ?s0.0 = svc0 and name = "[]",
      OF disjI1 [OF loginA] userA libA refl]
  note B = issued_token_validates [where s' = svc1, OF disjI2 [OF regB] userB libB refl]
  have idA: "ID alice = 1" and idB: "ID bob = 2" by (simp_all add: alice_def bob_def)
  have forged: "token_expiry ?LB ''adm:forged'' = Some (1700086400 * Second)"
    by (simp add: token_expiry_def table_Lib_def issued_claims_def exp)
  have past: "1700086400 * Second \<le> 1800000000 * Second"
    by (simp add: Second_def)
  from A [of "1700086399 * Second"] A [of "1700086400 * Second"]
       B [of "1700086399 * Second"] B [of "1700086400 * Second"]
       B [of "1800000000 * Second" "''adm:forged''" "1700086400 * Second"]
       early late forged past
  show ?thesis by (simp add: idA idB)
qed

section \<open>Refreshing a token\<close>

lemma NewNumericDate_add_Hours: "NewNumericDate (t + n * Hour) = NewNumericDate t + n * Hour"
proof -
  have "t + n * Hour = t + (n * 3600) * Second"
    by (simp add: Hour_def)
  then have "(t + n * Hour) mod Second = t mod Second"
    by (simp only: mod_mult_self1)
  then show ?thesis
    by (simp add: NewNumericDate_def)
qed

lemma GetUser_unknown:
  "\<not> list_ex (\<lambda>u. ID u = uid) (users d) \<Longrightarrow> GetUser d uid = Inl (Err ''user not found'')"
  by (auto simp: GetUser_def list_ex_iff find_None_iff split: option.splits)

text \<open>
  C4. \<open>RefreshToken\<close> fails with \<open>ErrInvalidToken\<close> when \<open>parseToken\<close> rejects the token;
  otherwise with \<open>ErrUserNotFound\<close> when no row of the store has the id of the claims;
  otherwise it answers with a token signed for claims whose expiry is 24 hours after the
  clock reading (at the precision of a numeric date), and whose email and admin flag, like
  the name, email and admin flag of the response, are those of the stored record \<open>u\<close>; the
  claims \<open>c\<close> of the old token contribute the user id only.
\<close>

theorem RefreshToken_cases:
  "(parseToken L s now token = Inl e \<longrightarrow> RefreshToken L s now clk token = Inl ErrInvalidToken)
 \<and> (parseToken L s now token = Inr c \<and> \<not> list_ex (\<lambda>u. ID u = UserID c) (users (db s))
      \<longrightarrow> RefreshToken L s now clk token = Inl ErrUserNotFound)
 \<and> (parseToken L s now token = Inr c \<and> GetUser (db s) (UserID c) = Inr u
      \<longrightarrow> RefreshToken L s now clk token =
            Inr \<lparr>Token = SignedString L ''HS256'' (jwtSecret s)
                           \<lparr>UserID = ID u, claims_Email = Email u, claims_IsAdmin = IsAdmin u,
                            ExpiresAt = Some (NewNumericDate (now_exp clk) + 24 * Hour),
                            NotBefore = None,
                            IssuedAt = Some (NewNumericDate (now_iat clk))\<rparr>,
                 ExpiresIn = seconds_int64 (now_exp clk + 24 * Hour - now_until clk),
                 resp_UserID = ID u, resp_Name = Name u, resp_Email = Email u,
                 resp_IsAdmin = IsAdmin u\<rparr>)"
  by (simp add: RefreshToken_def GetUser_unknown generateToken_eq issued_claims_def
      mkAuthResponse_def NewNumericDate_add_Hours)


theorem RefreshToken_cases_witness:
  "RefreshToken (table_Lib claims0) svc_promoted (1700000100 * Second) clk0 ''garbage''
     = Inl ErrInvalidToken
 \<and> RefreshToken (table_Lib claims0) svc_empty (1700000100 * Second) clk0 ''tok:k''
     = Inl ErrUserNotFound
 \<and> RefreshToken (table_Lib claims0) svc_promoted (1700000100 * Second) clk0 ''tok:k''
     = Inr \<lparr>Token = ''adm:k'', ExpiresIn = 86399, resp_UserID = 1, resp_Name = ''Alice'',
            resp_Email = ''alice@example.com'', resp_IsAdmin = True\<rparr>"
proof -
  let ?L = "table_Lib claims0"
  let ?now = "1700000100 * Second"
  have bad: "parseToken ?L svc_promoted ?now ''garbage'' = Inl (Err ''token is malformed'')"
    by (simp add: parseToken_def table_Lib_def)
  have ok_empty: "parseToken ?L svc_empty ?now ''tok:k'' = Inr claims0"
    by (simp add: parseToken_def table_Lib_def is_HMAC_def svc_empty_def claims_valid_def
        claims0_def Second_def)
  have ok: "parseToken ?L svc_promoted ?now ''tok:k'' = Inr claims0"
    by (simp add: parseToken_def table_Lib_def is_HMAC_def svc_promoted_def claims_valid_def
        claims0_def Second_def)
  have gone: "\<not> list_ex (\<lambda>u. ID u = UserID claims0) (users (db svc_empty))"
    by (simp add: svc_empty_def)
  have found: "GetUser (db svc_promoted) (UserID claims0) = Inr (alice\<lparr>IsAdmin := True\<rparr>)"
    by (simp add: GetUser_def svc_promoted_def alice_def claims0_def)
  have stale: "\<not> claims_IsAdmin claims0"
    by (simp add: claims0_def)
  have 1: "RefreshToken ?L svc_promoted ?now clk0 ''garbage'' = Inl ErrInvalidToken"
    using RefreshToken_cases [where L = ?L and s = svc_promoted and now = ?now
        and token = "''garbage''" and e = "Err ''token is malformed''"] bad
    by blast
  have 2: "RefreshToken ?L svc_empty ?now clk0 ''tok:k'' = Inl ErrUserNotFound"
    using RefreshToken_cases [where L = ?L and s = svc_empty and now = ?now
        and token = "''tok:k''" and c = claims0] ok_empty gone
    by blast
  have 3: "RefreshToken ?L svc_promoted ?now clk0 ''tok:k''
     = Inr \<lparr>Token = ''adm:k'', ExpiresIn = 86399, resp_UserID = 1, resp_Name = ''Alice'',
            resp_Email = ''alice@example.com'', resp_IsAdmin = True\<rparr>"
    using RefreshToken_cases [where L = ?L and s = svc_promoted and now = ?now
        and token = "''tok:k''" and c = claims0 and u = "alice\<lparr>IsAdmin := True\<rparr>"
        and clk = clk0] ok found
    by (simp add: table_Lib_def svc_promoted_def alice_def clk0_def seconds_int64_def Hour_def
        Second_def)
  from 1 2 3 show ?thesis by simp
qed

section \<open>The authentication stage\<close>


lemma parseToken_secret:
  "jwtSecret s1 = jwtSecret s2 \<Longrightarrow> parseToken L s1 now tok = parseToken L s2 now tok"
  by (simp add: parseToken_def split: option.splits)

text \<open>
  C9. \<open>ValidateToken\<close> and the authentication stage give the same result over any two
  stores \<open>d1\<close> and \<open>d2\<close>: they read the token string, the secret and the clock only. So a
  token that decodes, is signed under the secret with an HMAC method and passes the
  library's validation of its dates (it is not expired) is accepted over every store, and
  the user id of its claims is attached to the request, whether or not the store still
  holds that user.
\<close>

theorem ValidateToken_ignores_store:
  "ValidateToken L (s\<lparr>db := d1\<rparr>) now tok = ValidateToken L (s\<lparr>db := d2\<rparr>) now tok
 \<and> AuthMiddleware L (s\<lparr>db := d1\<rparr>) now r = AuthMiddleware L (s\<lparr>db := d2\<rparr>) now r
 \<and> (extractToken r = tok \<and> tok \<noteq> [] \<and> decode_token L tok = Some (alg, c) \<and> is_HMAC alg
      \<and> verify_signature L alg (jwtSecret s) tok \<and> claims_valid now c = None
      \<longrightarrow> AuthMiddleware L (s\<lparr>db := d1\<rparr>) now r = Next (r\<lparr>Context := Some (UserID c)\<rparr>))"
proof -
  have v: "ValidateToken L (s\<lparr>db := d\<rparr>) now t = ValidateToken L s now t" for d t
    by (simp add: ValidateToken_def parseToken_secret [of "s\<lparr>db := d\<rparr>" s])
  have m: "AuthMiddleware L (s\<lparr>db := d\<rparr>) now r = AuthMiddleware L s now r" for d
    by (simp add: AuthMiddleware_def Let_def v)
  have "AuthMiddleware L s now r = Next (r\<lparr>Context := Some (UserID c)\<rparr>)"
    if "extractToken r = tok" "tok \<noteq> []" "decode_token L tok = Some (alg, c)" "is_HMAC alg"
      "verify_signature L alg (jwtSecret s) tok" "claims_valid now c = None"
    using that
    by (simp add: AuthMiddleware_def ValidateToken_def parseToken_def ContextWithUserID_def)
  then show ?thesis
    by (simp add: v m)
qed

theorem ValidateToken_ignores_store_witness:
  "ValidateToken (table_Lib claims0) (svc0\<lparr>db := db svc_empty\<rparr>) (1700000100 * Second) ''tok:k''
     = ValidateToken (table_Lib claims0) (svc0\<lparr>db := db svc1\<rparr>) (1700000100 * Second) ''tok:k''
 \<and> GetUser (db svc_empty) (UserID claims0) = Inl (Err ''user not found'')
 \<and> AuthMiddleware (table_Lib claims0) (svc0\<lparr>db := db svc_empty\<rparr>) (1700000100 * Second) req_bearer
     = Next (req_bearer\<lparr>Context := Some 1\<rparr>)"
proof -
  let ?L = "table_Lib claims0"
  have x: "extractToken req_bearer = ''tok:k''"
    by (simp add: extractToken_def req_bearer_def Get_def)
  have ne: "''tok:k'' \<noteq> []" by simp
  have dec: "decode_token ?L ''tok:k'' = Some (''HS256'', claims0)"
    by (simp add: table_Lib_def)
  have hm: "is_HMAC ''HS256''" by (simp add: is_HMAC_def)
  have sig: "verify_signature ?L ''HS256'' (jwtSecret svc0) ''tok:k''"
    by (simp add: table_Lib_def svc0_def)
  have fresh: "claims_valid (1700000100 * Second) claims0 = None"
    by (simp add: claims_valid_def claims0_def Second_def)
  have gone: "GetUser (db svc_empty) (UserID claims0) = Inl (Err ''user not found'')"
    by (simp add: GetUser_def svc_empty_def)
  have uid: "UserID claims0 = 1" by (simp add: claims0_def)
  note T = ValidateToken_ignores_store [where L = ?L and s = svc0 and now = "1700000100 * Second"
      and tok = "''tok:k''" and r = req_bearer and alg = "''HS256''" and c = claims0
      and ?d1.0 = "db svc_empty" and ?d2.0 = "db svc1"]
  from T have a: "ValidateToken ?L (svc0\<lparr>db := db svc_empty\<rparr>) (1700000100 * Second) ''tok:k''
     = ValidateToken ?L (svc0\<lparr>db := db svc1\<rparr>) (1700000100 * Second) ''tok:k''"
    by (rule conjunct1)
  from T x ne dec hm sig fresh
  have b: "AuthMiddleware ?L (svc0\<lparr>db := db svc_empty\<rparr>) (1700000100 * Second) req_bearer
     = Next (req_bearer\<lparr>Context := Some (UserID claims0)\<rparr>)"
    by blast
  from a b gone show ?thesis by (simp only: uid simp_thms)
qed


lemma extractToken_malformed:
  assumes "h = Get (Header r) ''Authorization''"
    and "Header r ''Authorization'' = [] \<or> length (Split h CHR '' '') \<noteq> 2
         \<or> Split h CHR '' '' ! 0 \<noteq> ''Bearer''"
  shows "extractToken r = []"
  using assms by (auto simp: extractToken_def Let_def Get_def)

lemma extractToken_bearer:
  assumes "h = Get (Header r) ''Authorization''" and "Split h CHR '' '' = [''Bearer'', tok]"
  shows "extractToken r = tok"
proof -
  from assms(2) have "h \<noteq> []" by auto
  with assms show ?thesis by (simp add: extractToken_def Let_def)
qed

lemma ValidateToken_Inl: "ValidateToken L s now tok = Inl e \<Longrightarrow> e = ErrInvalidToken"
  by (auto simp: ValidateToken_def split: sum.splits)

lemma ValidateToken_empty: "decode_token L [] = None \<Longrightarrow> ValidateToken L s now [] = Inl ErrInvalidToken"
  by (simp add: ValidateToken_def parseToken_def)

text \<open>
  C6. With \<open>h\<close> the value of the Authorization header: when the header is missing, or
  \<open>h\<close> does not split at spaces into exactly two parts, or the first part is not
  \<open>Bearer\<close>, the stage answers 401 whatever the library, the service and the clock are,
  so \<open>ValidateToken\<close> has no part in the answer. When \<open>h\<close> is \<open>Bearer\<close>, a space and a
  token: if \<open>ValidateToken\<close> rejects the token the stage answers 401; if it returns a user
  id, the stage calls the next handler with that id attached to the request. (The library
  is taken not to decode the empty string.)
\<close>

theorem AuthMiddleware_cases:
  assumes lib: "decode_token L [] = None"
    and h: "h = Get (Header r) ''Authorization''"
  shows "(Header r ''Authorization'' = [] \<or> length (Split h CHR '' '') \<noteq> 2
            \<or> Split h CHR '' '' ! 0 \<noteq> ''Bearer''
          \<longrightarrow> (\<forall>L' s' now'. AuthMiddleware L' s' now' r
                              = Rejected ''Missing authorization header'' StatusUnauthorized))
       \<and> (Split h CHR '' '' = [''Bearer'', tok] \<and> ValidateToken L s now tok = Inl e
          \<longrightarrow> (\<exists>msg. AuthMiddleware L s now r = Rejected msg StatusUnauthorized))
       \<and> (Split h CHR '' '' = [''Bearer'', tok] \<and> ValidateToken L s now tok = Inr userID
          \<longrightarrow> AuthMiddleware L s now r = Next (r\<lparr>Context := Some userID\<rparr>))"
proof (intro conjI impI)
  assume "Header r ''Authorization'' = [] \<or> length (Split h CHR '' '') \<noteq> 2
            \<or> Split h CHR '' '' ! 0 \<noteq> ''Bearer''"
  from extractToken_malformed [OF h this]
  show "\<forall>L' s' now'. AuthMiddleware L' s' now' r
          = Rejected ''Missing authorization header'' StatusUnauthorized"
    by (simp add: AuthMiddleware_def)
next
  assume a: "Split h CHR '' '' = [''Bearer'', tok] \<and> ValidateToken L s now tok = Inl e"
  then have x: "extractToken r = tok" using h by (simp add: extractToken_bearer)
  from a have "e = ErrInvalidToken" by (auto dest: ValidateToken_Inl)
  with a x show "\<exists>msg. AuthMiddleware L s now r = Rejected msg StatusUnauthorized"
    by (simp add: AuthMiddleware_def)
next
  assume a: "Split h CHR '' '' = [''Bearer'', tok] \<and> ValidateToken L s now tok = Inr userID"
  then have x: "extractToken r = tok" using h by (simp add: extractToken_bearer)
  from a lib have "tok \<noteq> []" by (auto simp: ValidateToken_empty)
  with a x show "AuthMiddleware L s now r = Next (r\<lparr>Context := Some userID\<rparr>)"
    by (simp add: AuthMiddleware_def ContextWithUserID_def)
qed

theorem AuthMiddleware_cases_witness:
  "AuthMiddleware (table_Lib claims0) svc0 (1700000100 * Second) req_plain
     = Rejected ''Missing authorization header'' StatusUnauthorized
 \<and> AuthMiddleware (table_Lib claims0) svc0 (1700000100 * Second) req_basic
     = Rejected ''Missing authorization header'' StatusUnauthorized
 \<and> (\<exists>msg. AuthMiddleware (table_Lib claims0) svc0 (1700000100 * Second) req_stale
            = Rejected msg StatusUnauthorized)
 \<and> AuthMiddleware (table_Lib claims0) svc0 (1700000100 * Second) req_bearer
     = Next (req_bearer\<lparr>Context := Some 1\<rparr>)"
proof -
  let ?L = "table_Lib claims0"
  let ?now = "1700000100 * Second"
  have lib: "decode_token ?L [] = None"
    by (simp add: table_Lib_def)
  have h_plain: "[] = Get (Header req_plain) ''Authorization''"
    and h_basic: "''Basic dXNlcjpwdw=='' = Get (Header req_basic) ''Authorization''"
    and h_stale: "''Bearer tok:old'' = Get (Header req_stale) ''Authorization''"
    and h_bearer: "''Bearer tok:k'' = Get (Header req_bearer) ''Authorization''"
    by (simp_all add: Get_def req_plain_def req_basic_def req_stale_def req_bearer_def)
  have missing: "Header req_plain ''Authorization'' = []"
    by (simp add: req_plain_def)
  have scheme: "Split ''Basic dXNlcjpwdw=='' CHR '' '' ! 0 \<noteq> ''Bearer''"
    by simp
  have sp_stale: "Split ''Bearer tok:old'' CHR '' '' = [''Bearer'', ''tok:old'']"
    and sp_bearer: "Split ''Bearer tok:k'' CHR '' '' = [''Bearer'', ''tok:k'']"
    by simp_all
  have rej: "ValidateToken ?L svc0 ?now ''tok:old'' = Inl ErrInvalidToken"
    by (simp add: ValidateToken_def parseToken_def table_Lib_def is_HMAC_def svc0_def)
  have acc: "ValidateToken ?L svc0 ?now ''tok:k'' = Inr 1"
    by (simp add: ValidateToken_def parseToken_def table_Lib_def is_HMAC_def svc0_def
        claims_valid_def claims0_def Second_def)
  from AuthMiddleware_cases [OF lib h_plain] missing
  have 1: "AuthMiddleware ?L svc0 ?now req_plain
            = Rejected ''Missing authorization header'' StatusUnauthorized"
    by blast
  from AuthMiddleware_cases [OF lib h_basic] scheme
  have 2: "AuthMiddleware ?L svc0 ?now req_basic
            = Rejected ''Missing authorization header'' StatusUnauthorized"
    by blast
  from AuthMiddleware_cases [OF lib h_stale, where tok = "''tok:old''" and s = svc0
      and now = ?now and e = ErrInvalidToken] sp_stale rej
  have 3: "\<exists>msg. AuthMiddleware ?L svc0 ?now req_stale = Rejected msg StatusUnauthorized"
    by blast
  from AuthMiddleware_cases [OF lib h_bearer, where tok = "''tok:k''" and s = svc0
      and now = ?now and userID = 1] sp_bearer acc
  have 4: "AuthMiddleware ?L svc0 ?now req_bearer = Next (req_bearer\<lparr>Context := Some 1\<rparr>)"
    by blast
  from 1 2 3 4 show ?thesis by blast
qed


section \<open>The admin-authorization stage\<close>

text \<open>
  C5, as stated, fails on a request to which the user id 0 was attached: the claim sends
  it on to the \<open>isAdmin\<close> lookup, which fails over the empty store and would give an
  internal error, but the stage answers 401 without looking the user up, since
  \<open>UserIDFromContext\<close> reads an attached 0 like an absent id.
\<close>

theorem AdminMiddleware_zero_id_counterexample:
  "Context req_zero = Some 0
 \<and> IsAdmin_svc svc_empty 0 = Inl (Err ''user not found'')
 \<and> AdminMiddleware svc_empty req_zero \<noteq> Rejected ''Internal server error'' StatusInternalServerError
 \<and> AdminMiddleware svc_empty req_zero = Rejected ''Unauthorized'' StatusUnauthorized"
  by (simp add: AdminMiddleware_def UserIDFromContext_def req_zero_def IsAdmin_svc_def GetUser_def
      svc_empty_def StatusUnauthorized_def StatusInternalServerError_def)

text \<open>
  C5, amended. If no user id, or the id 0, is attached to the request, the
  admin-authorization stage answers 401. Otherwise, if the store has no record of the id
  (the lookup of \<open>IsAdmin\<close> fails), it answers 500; otherwise, if the stored admin flag is
  false, it answers 403; otherwise it calls the next handler with the request unchanged.
\<close>

theorem AdminMiddleware_cases:
  "(Context r = None \<or> Context r = Some 0
      \<longrightarrow> AdminMiddleware s r = Rejected ''Unauthorized'' StatusUnauthorized)
 \<and> (Context r = Some userID \<and> userID \<noteq> 0 \<and> GetUser (db s) userID = Inl e
      \<longrightarrow> AdminMiddleware s r = Rejected ''Internal server error'' StatusInternalServerError)
 \<and> (Context r = Some userID \<and> userID \<noteq> 0 \<and> GetUser (db s) userID = Inr u \<and> \<not> IsAdmin u
      \<longrightarrow> AdminMiddleware s r = Rejected ''Admin access required'' StatusForbidden)
 \<and> (Context r = Some userID \<and> userID \<noteq> 0 \<and> GetUser (db s) userID = Inr u \<and> IsAdmin u
      \<longrightarrow> AdminMiddleware s r = Next r)"
  by (auto simp: AdminMiddleware_def UserIDFromContext_def IsAdmin_svc_def)

theorem AdminMiddleware_cases_witness:
  "AdminMiddleware svc0 req_plain = Rejected ''Unauthorized'' StatusUnauthorized
 \<and> AdminMiddleware svc0 req_zero = Rejected ''Unauthorized'' StatusUnauthorized
 \<and> AdminMiddleware svc_empty (req_plain\<lparr>Context := Some 1\<rparr>)
     = Rejected ''Internal server error'' StatusInternalServerError
 \<and> AdminMiddleware svc0 (req_plain\<lparr>Context := Some 1\<rparr>)
     = Rejected ''Admin access required'' StatusForbidden
 \<and> AdminMiddleware svc_promoted (req_plain\<lparr>Context := Some 1\<rparr>)
     = Next (req_plain\<lparr>Context := Some 1\<rparr>)"
proof -
  let ?r = "req_plain\<lparr>Context := Some 1\<rparr>"
  have none: "Context req_plain = None" and zero: "Context req_zero = Some 0"
    and one: "Context ?r = Some 1"
    by (simp_all add: req_plain_def req_zero_def)
  have gone: "GetUser (db svc_empty) 1 = Inl (Err ''user not found'')"
    by (simp add: GetUser_def svc_empty_def)
  have plain: "GetUser (db svc0) 1 = Inr alice" and "\<not> IsAdmin alice"
    by (simp_all add: GetUser_def svc0_def alice_def)
  have adm: "GetUser (db svc_promoted) 1 = Inr (alice\<lparr>IsAdmin := True\<rparr>)"
    and "IsAdmin (alice\<lparr>IsAdmin := True\<rparr>)"
    by (simp_all add: GetUser_def svc_promoted_def alice_def)
  have nz: "(1::int) \<noteq> 0" by simp
  from AdminMiddleware_cases [where r = req_plain and s = svc0] none
  have 1: "AdminMiddleware svc0 req_plain = Rejected ''Unauthorized'' StatusUnauthorized"
    by blast
  from AdminMiddleware_cases [where r = req_zero and s = svc0] zero
  have 2: "AdminMiddleware svc0 req_zero = Rejected ''Unauthorized'' StatusUnauthorized"
    by blast
  from AdminMiddleware_cases [where r = ?r and userID = 1 and s = svc_empty
      and e = "Err ''user not found''"] one nz gone
  have 3: "AdminMiddleware svc_empty ?r
           = Rejected ''Internal server error'' StatusInternalServerError"
    by blast
  from AdminMiddleware_cases [where r = ?r and userID = 1 and s = svc0 and u = alice] one nz plain \<open>\<not> IsAdmin alice\<close>
  have 4: "AdminMiddleware svc0 ?r = Rejected ''Admin access required'' StatusForbidden"
    by blast
  from AdminMiddleware_cases [where r = ?r and userID = 1 and s = svc_promoted
      and u = "alice\<lparr>IsAdmin := True\<rparr>"] one nz adm
    \<open>IsAdmin (alice\<lparr>IsAdmin := True\<rparr>)\<close>
  have 5: "AdminMiddleware svc_promoted ?r = Next ?r"
    by blast
  from 1 2 3 4 5 show ?thesis by blast
qed

section \<open>Title uniqueness\<close>









text \<open>
  Both operations keep the invariants of the catalog: whatever they are given, titles
  and ids stay distinct.
\<close>

lemma CreateMovie_keeps_catalog_ok:
  assumes "catalog_ok d"
  shows "catalog_ok (snd (CreateMovie d now movie))"
  using assms
  by (auto simp: catalog_ok_def CreateMovie_def Let_def list_ex_iff)

lemma UpdateMovie_keeps_catalog_ok:
  assumes ok: "catalog_ok d"
  shows "catalog_ok (snd (UpdateMovie d movie))"
proof (cases "list_ex (\<lambda>r. Title r = Title movie \<and> movie_ID r \<noteq> movie_ID movie) (movies d)
              \<or> nothing_to_set movie")
  case True
  then show ?thesis using ok by (auto simp: UpdateMovie_def)
next
  case False
  let ?g = "\<lambda>r. if movie_ID r = movie_ID movie then omit_zero movie r else r"
  let ?xs = "movies d"
  have ids: "map movie_ID (map ?g ?xs) = map movie_ID ?xs"
    by (simp add: omit_zero_def)
  have free: "Title r = Title movie \<Longrightarrow> movie_ID r = movie_ID movie" if "r \<in> set ?xs" for r
    using False that by (auto simp: list_ex_iff)
  have t: "Title (?g r) = (if movie_ID r = movie_ID movie \<and> Title movie \<noteq> [] then Title movie
                           else Title r)" for r
    by (simp add: omit_zero_def)
  have "distinct (map Title (map ?g ?xs))"
    unfolding distinct_conv_nth
  proof (intro allI impI)
    fix i j
    assume i: "i < length (map Title (map ?g ?xs))" and j: "j < length (map Title (map ?g ?xs))"
      and ne: "i \<noteq> j"
    then have i': "i < length ?xs" and j': "j < length ?xs" by simp_all
    have dt: "Title (?xs ! i) \<noteq> Title (?xs ! j)"
      using ok i' j' ne by (auto simp: catalog_ok_def distinct_conv_nth)
    have di: "movie_ID (?xs ! i) \<noteq> movie_ID (?xs ! j)"
      using ok i' j' ne by (auto simp: catalog_ok_def distinct_conv_nth)
    have mi: "?xs ! i \<in> set ?xs" and mj: "?xs ! j \<in> set ?xs"
      using i' j' by simp_all
    have "Title (?g (?xs ! i)) \<noteq> Title (?g (?xs ! j))"
      unfolding t using dt di free [OF mi] free [OF mj] by (auto split: if_splits)
    then show "map Title (map ?g ?xs) ! i \<noteq> map Title (map ?g ?xs) ! j"
      using i' j' by simp
  qed
  moreover have "distinct (map movie_ID (map ?g ?xs))"
    using ok unfolding ids by (simp add: catalog_ok_def)
  ultimately show ?thesis
    using False by (simp add: UpdateMovie_def catalog_ok_def)
qed

section \<open>The movie listing\<close>









lemma GetMovies_rejected:
  "selected st d f = Inl err \<Longrightarrow> GetMovies st d f = ([], 0, Some err)"
  by (simp add: GetMovies_def)

























section \<open>Total and pages\<close>

lemma GetMovies_total:
  "selected st d f = Inr rows \<Longrightarrow> fst (snd (GetMovies st d f)) = int (length rows)"
  by (simp add: GetMovies_def Let_def)








end
